theory Spec2Isabelle
  imports Main
begin

section \<open>JavaScript values used by the handlers\<close>

text \<open>
  A JavaScript number is modelled as \<open>NaN\<close> or an integer: thread ids and the
  free-request counter are integers; fractional and infinite values are not modelled.
  \<open>Num n\<close> stands for the double whose value is \<open>n\<close>.
\<close>

datatype jsnum = NaN | Num int

text \<open>\<open>!x\<close> on a number: \<open>NaN\<close> and \<open>0\<close> are falsy.\<close>

definition truthy_num :: "jsnum \<Rightarrow> bool" where
  "truthy_num x = (case x of NaN \<Rightarrow> False | Num n \<Rightarrow> n \<noteq> 0)"

text \<open>\<open>!s\<close> on an optional string: \<open>undefined\<close> and the empty string are falsy.\<close>

definition truthy_str :: "string option \<Rightarrow> bool" where
  "truthy_str x = (case x of None \<Rightarrow> False | Some s \<Rightarrow> s \<noteq> [])"

text \<open>\<open>a ?? b\<close>: the right operand only when the left one is \<open>undefined\<close>.\<close>

definition nullish :: "'a option \<Rightarrow> 'a option \<Rightarrow> 'a option" where
  "nullish a b = (case a of None \<Rightarrow> b | Some x \<Rightarrow> Some x)"

text \<open>The decimal digits of an integer, as \<open>join\<close> writes a thread id.\<close>

definition digit_char :: "nat \<Rightarrow> char" where
  "digit_char d = ''0123456789'' ! d"

function show_nat :: "nat \<Rightarrow> string" where
  "show_nat n = (if n < 10 then [digit_char n] else show_nat (n div 10) @ [digit_char (n mod 10)])"
  by pat_completeness auto
termination
  by (relation "measure (\<lambda>n. n)") auto

definition show_int :: "int \<Rightarrow> string" where
  "show_int i = (if i < 0 then CHR ''-'' # show_nat (nat (- i)) else show_nat (nat i))"

text \<open>\<open>xs.join(sep)\<close> on an array of strings.\<close>

fun join :: "string \<Rightarrow> string list \<Rightarrow> string" where
  "join sep [] = []"
| "join sep [x] = x"
| "join sep (x # y # ys) = x @ sep @ join sep (y # ys)"

text \<open>What a handler can throw: an \<open>Error\<close> with its message, or a \<open>TypeError\<close>.\<close>

datatype js_error = Error string | TypeError

section \<open>Environment: Cloudflare context first, then the process environment\<close>

type_synonym env_vars = "string \<Rightarrow> string option"

text \<open>
  \<open>cloudflare\<close> is \<open>ctx?.cloudflare?.env\<close>: \<open>None\<close> when the server context cannot be
  loaded (the \<open>require\<close> throws and the \<open>catch\<close> swallows it) or has no Cloudflare
  environment.
\<close>

record runtime =
  cloudflare :: "env_vars option"
  process_env :: env_vars

record AuthEnv =
  DATABASE_URL :: string
  BETTER_AUTH_SECRET :: string
  APP_BASE_URL :: "string option"
  RESEND_API_KEY :: "string option"
  RESEND_FROM_EMAIL :: "string option"

definition cf_var :: "runtime \<Rightarrow> string \<Rightarrow> string option" where
  "cf_var r k = (case cloudflare r of None \<Rightarrow> None | Some cfEnv \<Rightarrow> cfEnv k)"

definition getEnv :: "runtime \<Rightarrow> js_error + AuthEnv" where
  "getEnv r =
     (let database_url = nullish (cf_var r ''DATABASE_URL'') (process_env r ''DATABASE_URL'');
          better_auth_secret =
            nullish (cf_var r ''BETTER_AUTH_SECRET'') (process_env r ''BETTER_AUTH_SECRET'');
          app_base_url = nullish (cf_var r ''APP_BASE_URL'') (process_env r ''APP_BASE_URL'');
          resend_api_key = nullish (cf_var r ''RESEND_API_KEY'') (process_env r ''RESEND_API_KEY'');
          resend_from_email =
            nullish (cf_var r ''RESEND_FROM_EMAIL'') (process_env r ''RESEND_FROM_EMAIL'')
      in case database_url of
           None \<Rightarrow> Inl (Error ''DATABASE_URL is not configured'')
         | Some du \<Rightarrow>
             if du = [] then Inl (Error ''DATABASE_URL is not configured'')
             else (case better_auth_secret of
                     None \<Rightarrow> Inl (Error ''BETTER_AUTH_SECRET is not configured'')
                   | Some bs \<Rightarrow>
                       if bs = [] then Inl (Error ''BETTER_AUTH_SECRET is not configured'')
                       else Inr \<lparr> DATABASE_URL = du, BETTER_AUTH_SECRET = bs,
                                  APP_BASE_URL = app_base_url, RESEND_API_KEY = resend_api_key,
                                  RESEND_FROM_EMAIL = resend_from_email \<rparr>))"

text \<open>
  \<open>getAuth\<close> runs \<open>getEnv\<close> on every call and rebuilds the cached auth handle when
  there is none or the database address changed. The cache holds the environment the
  handle was built from (\<open>None\<close> for \<open>cachedAuth = null\<close>); the result is the handle
  returned and the cache after the call.
\<close>

definition getAuth :: "runtime \<Rightarrow> AuthEnv option \<Rightarrow> (js_error + AuthEnv) \<times> AuthEnv option" where
  "getAuth r cachedAuth =
     (case getEnv r of
        Inl e \<Rightarrow> (Inl e, cachedAuth)
      | Inr env \<Rightarrow>
          (case cachedAuth of
             None \<Rightarrow> (Inr env, Some env)
           | Some built \<Rightarrow>
               if DATABASE_URL built \<noteq> DATABASE_URL env then (Inr env, Some env)
               else (Inr built, Some built)))"

subsection \<open>The LLM provider\<close>

definition getApiKey :: "runtime \<Rightarrow> string option" where
  "getApiKey r =
     (if truthy_str (cf_var r ''OPENROUTER_API_KEY'') then cf_var r ''OPENROUTER_API_KEY''
      else process_env r ''OPENROUTER_API_KEY'')"

definition getModel :: "runtime \<Rightarrow> string" where
  "getModel r =
     (case cf_var r ''OPENROUTER_MODEL'' of
        Some m \<Rightarrow>
          if m \<noteq> [] then m
          else (case process_env r ''OPENROUTER_MODEL'' of
                  None \<Rightarrow> ''google/gemini-2.0-flash-001'' | Some pm \<Rightarrow> pm)
      | None \<Rightarrow>
          (case process_env r ''OPENROUTER_MODEL'' of
             None \<Rightarrow> ''google/gemini-2.0-flash-001'' | Some pm \<Rightarrow> pm))"

text \<open>\<open>getOpenRouter\<close>: \<open>None\<close> is \<open>null\<close>, otherwise the provider built from the key.\<close>

definition getOpenRouter :: "runtime \<Rightarrow> string option" where
  "getOpenRouter r = (if \<not> truthy_str (getApiKey r) then None else getApiKey r)"

definition getDefaultModel :: "runtime \<Rightarrow> string" where
  "getDefaultModel r = getModel r"

section \<open>Requests, responses and observable effects\<close>

record url =
  endpoint :: string
  searchParams :: "(string \<times> string) list"

text \<open>
  \<open>URLSearchParams.set(name, value)\<close>: the first pair with that name takes the value
  and every other pair with that name is removed; without such a pair, one is appended.
\<close>

fun searchParams_set :: "string \<Rightarrow> string \<Rightarrow> (string \<times> string) list \<Rightarrow> (string \<times> string) list" where
  "searchParams_set name v [] = [(name, v)]"
| "searchParams_set name v ((k, w) # ps) =
     (if k = name then (name, v) # filter (\<lambda>p. fst p \<noteq> name) ps
      else (k, w) # searchParams_set name v ps)"

text \<open>\<open>URLSearchParams.getAll(name)\<close>.\<close>

definition searchParams_getAll :: "string \<Rightarrow> (string \<times> string) list \<Rightarrow> string list" where
  "searchParams_getAll name ps = map snd (filter (\<lambda>p. fst p = name) ps)"

text \<open>
  What \<open>request.json()\<close> resolves to. A number is an integer that a double holds
  exactly and that prints in plain decimal; fractions and exponents are not modelled.
  An object is the list of its members as the text has them; a name that occurs twice
  has the value of its last occurrence.
\<close>

datatype json =
    JNull
  | JBool bool
  | JNumber int
  | JString string
  | JArray "json list"
  | JObject "(string \<times> json) list"

text \<open>The messages the guest view keeps and sends.\<close>

datatype role = User | Assistant

record chat_msg =
  role :: role
  content :: string

text \<open>
  What the upstream completion stream delivers: text fragments, then its natural end
  or an error.
\<close>

datatype upstream_event = TextDelta string | Finish | StreamError

text \<open>
  A response body: a complete text, a stream of fixed chunks that is then closed, or the
  text stream of a running completion (with the thread to persist into once it finishes,
  if any).
\<close>

datatype body =
    Text string
  | Chunks "string list"
  | TextStream "upstream_event list" "int option"

record response =
  status :: nat
  resp_headers :: "(string \<times> string) list"
  resp_body :: body

text \<open>
  What a handler does to the outside world, in order. \<open>StreamText\<close> is the call of
  the completion collaborator with the model and the messages it is given (each with its
  \<open>role\<close> and \<open>content\<close>, \<open>None\<close> for \<open>undefined\<close>); the system instruction is always
  the same and is not recorded.
\<close>

datatype effect =
    GetSession
  | DbExecute string
  | DbFindMany string
  | DbFindFirst int
  | DbInsert int string string
  | ProxyElectric url
  | StreamText json "(json option \<times> json option) list"

record result =
  outcome :: "js_error + response"
  effects :: "effect list"


definition is_insert :: "effect \<Rightarrow> bool" where
  "is_insert e = (case e of DbInsert _ _ _ \<Rightarrow> True | _ \<Rightarrow> False)"

definition is_network :: "effect \<Rightarrow> bool" where
  "is_network e = (case e of ProxyElectric _ \<Rightarrow> True | StreamText _ _ \<Rightarrow> True | _ \<Rightarrow> False)"

definition is_proxy :: "effect \<Rightarrow> bool" where
  "is_proxy e = (case e of ProxyElectric _ \<Rightarrow> True | _ \<Rightarrow> False)"

definition json_headers :: "(string \<times> string) list" where
  "json_headers = [(''content-type'', ''application/json'')]"

definition json_error :: "nat \<Rightarrow> string \<Rightarrow> response" where
  \<open>json_error code msg =
     \<lparr> status = code, resp_headers = json_headers,
       resp_body = Text (''{"error":"'' @ msg @ ''"}'') \<rparr>\<close>

section \<open>The server: configuration, sessions and the thread table\<close>

text \<open>A row of \<open>chat_threads\<close>; its \<open>id\<close> column is the field \<open>thread_id\<close>.\<close>

record chat_thread =
  thread_id :: int
  title :: string
  user_id :: string

text \<open>
  How the two \<open>CREATE TABLE IF NOT EXISTS\<close> statements of the sync proxy end: a
  failure of either is caught and logged as a warning (console output is not modelled).
\<close>

datatype ensure_tables = BothSucceed | FirstFails | SecondFails

text \<open>
  \<open>session_user\<close> is the auth collaborator: \<open>session?.user?.id\<close> of the session it
  resolves from the request headers. \<open>chat_threads\<close> is the table as the database
  handle reads it.
\<close>

record server =
  rt :: runtime
  cachedAuth :: "AuthEnv option"
  session_user :: "(string \<times> string) list \<Rightarrow> string option"
  chat_threads :: "chat_thread list"
  ensure :: ensure_tables

text \<open>
  A request: its URL, its headers, and what \<open>request.json()\<close> does with its body
  (\<open>None\<close> when it rejects, as on a body that is not JSON).
\<close>

record 'b request =
  req_url :: url
  req_headers :: "(string \<times> string) list"
  req_json :: "'b option"

section \<open>The sync proxy for chat messages\<close>

definition ensure_effects :: "ensure_tables \<Rightarrow> effect list" where
  "ensure_effects e =
     (case e of
        BothSucceed \<Rightarrow> [DbExecute ''chat_threads'', DbExecute ''chat_messages'']
      | FirstFails \<Rightarrow> [DbExecute ''chat_threads'']
      | SecondFails \<Rightarrow> [DbExecute ''chat_threads'', DbExecute ''chat_messages''])"

text \<open>The value the handler stores under \<open>where\<close>.\<close>

definition where_param :: "int list \<Rightarrow> string" where
  \<open>where_param threadIds =
     (if length threadIds > 0
      then ''"thread_id" IN ('' @ join '','' (map show_int threadIds) @ '')''
      else ''"thread_id" = -1'')\<close>

text \<open>
  \<open>await getAuth().api.getSession({ headers })\<close> followed by \<open>session?.user?.id\<close>:
  \<open>getAuth\<close> may throw. The cache it leaves behind is module state that no response and
  no effect shows, so it is dropped here.
\<close>

definition session_lookup :: "server \<Rightarrow> 'b request \<Rightarrow> js_error + string option" where
  "session_lookup srv request =
     (case fst (getAuth (rt srv) (cachedAuth srv)) of
        Inl e \<Rightarrow> Inl e
      | Inr _ \<Rightarrow> Inr (session_user srv (req_headers request)))"

text \<open>
  \<open>serve\<close>, the GET handler of \<open>/api/chat-messages\<close>. \<open>prepareElectricUrl\<close> and
  \<open>proxyElectricRequest\<close> live in \<open>lib/electric-proxy\<close>, which is not part of the
  sources at hand; both are parameters. The database handle (\<open>getDb\<close>, not among the
  sources either) is taken to be available, and a failing query is not modelled.
\<close>

definition serve ::
  "server \<Rightarrow> (url \<Rightarrow> url) \<Rightarrow> (url \<Rightarrow> js_error + response) \<Rightarrow> 'b request \<Rightarrow> result" where
  "serve srv prepareElectricUrl proxyElectricRequest request =
     (case session_lookup srv request of
        Inl e \<Rightarrow> \<lparr> outcome = Inl e, effects = [] \<rparr>
      | Inr session \<Rightarrow>
          (case session of
             None \<Rightarrow> \<lparr> outcome = Inr (json_error 401 ''Unauthorized''), effects = [GetSession] \<rparr>
           | Some uid \<Rightarrow>
               if uid = []
               then \<lparr> outcome = Inr (json_error 401 ''Unauthorized''), effects = [GetSession] \<rparr>
               else
                 (let userThreads = filter (\<lambda>t. user_id t = uid) (chat_threads srv);
                      threadIds = map thread_id userThreads;
                      originUrl = prepareElectricUrl (req_url request);
                      originUrl = originUrl \<lparr> searchParams :=
                        searchParams_set ''table'' ''chat_messages'' (searchParams originUrl) \<rparr>;
                      originUrl = originUrl \<lparr> searchParams :=
                        searchParams_set ''where'' (where_param threadIds) (searchParams originUrl) \<rparr>
                  in \<lparr> outcome = proxyElectricRequest originUrl,
                       effects = [GetSession] @ ensure_effects (ensure srv)
                                 @ [DbFindMany uid, ProxyElectric originUrl] \<rparr>)))"

text \<open>The URLs a handler run handed to \<open>proxyElectricRequest\<close>.\<close>

fun forwarded :: "effect list \<Rightarrow> url list" where
  "forwarded [] = []"
| "forwarded (ProxyElectric u # es) = u # forwarded es"
| "forwarded (e # es) = forwarded es"

subsection \<open>The SQL reading of the filter\<close>

text \<open>
  The two shapes of filter the handler writes, how each is written, and which rows of
  \<open>chat_messages\<close> each selects (by the row's \<open>thread_id\<close> column).
\<close>

datatype row_filter = ThreadIdIn "int list" | ThreadIdEq int

fun render :: "row_filter \<Rightarrow> string" where
  \<open>render (ThreadIdIn ids) = ''"thread_id" IN ('' @ join '','' (map show_int ids) @ '')''\<close>
| \<open>render (ThreadIdEq n) = ''"thread_id" = '' @ show_int n\<close>




subsection \<open>The sync proxy for chat threads\<close>


section \<open>Reading a parsed body\<close>

text \<open>
  \<open>request.json().catch(() => ({}))\<close>: a body that does not parse is replaced by the
  empty object.
\<close>

definition parsed_body :: "json request \<Rightarrow> json" where
  "parsed_body request = (case req_json request of None \<Rightarrow> JObject [] | Some b \<Rightarrow> b)"

definition own_property :: "(string \<times> json) list \<Rightarrow> string \<Rightarrow> json option" where
  "own_property members k = map_of (rev members) k"

text \<open>
  \<open>v.k\<close> for the names the handlers read (\<open>threadId\<close>, \<open>messages\<close>, \<open>model\<close>,
  \<open>role\<close>, \<open>content\<close>), none of which a prototype defines: reading from \<open>null\<close> throws,
  from an object gives the member or \<open>undefined\<close>, from any other value \<open>undefined\<close>.
\<close>

fun get_property :: "json \<Rightarrow> string \<Rightarrow> js_error + json option" where
  "get_property JNull k = Inl TypeError"
| "get_property (JObject members) k = Inr (own_property members k)"
| "get_property v k = Inr None"

text \<open>
  The conversion of a value to a string, as a template literal and \<open>Number\<close> apply it.
  A number is printed in plain decimal, as the platform prints the integers modelled.
  An array is the join of its elements with commas, \<open>null\<close> elements as empty strings.
  A parsed object has no callable \<open>toString\<close> of its own: it is \<open>[object Object]\<close>
  through the prototype, unless a member named \<open>toString\<close> hides that, and then the
  conversion throws.
\<close>

fun ToString :: "json \<Rightarrow> js_error + string"
  and join_elements :: "json list \<Rightarrow> js_error + string list" where
  "ToString JNull = Inr ''null''"
| "ToString (JBool b) = Inr (if b then ''true'' else ''false'')"
| "ToString (JNumber n) = Inr (show_int n)"
| "ToString (JString s) = Inr s"
| "ToString (JArray xs) =
     (case join_elements xs of Inl e \<Rightarrow> Inl e | Inr ss \<Rightarrow> Inr (join '','' ss))"
| "ToString (JObject members) =
     (if ''toString'' \<in> set (map fst members) then Inl TypeError else Inr ''[object Object]'')"
| "join_elements [] = Inr []"
| "join_elements (x # xs) =
     (case (if x = JNull then Inr [] else ToString x) of
        Inl e \<Rightarrow> Inl e
      | Inr s \<Rightarrow> (case join_elements xs of Inl e \<Rightarrow> Inl e | Inr ss \<Rightarrow> Inr (s # ss)))"

text \<open>
  \<open>Number(x)\<close>: \<open>undefined\<close> gives \<open>NaN\<close>, \<open>null\<close> and \<open>false\<close> give 0, \<open>true\<close>
  gives 1; a string goes through the platform's string-to-number conversion, a parameter;
  an array or an object is first converted to a string.
\<close>

definition Number :: "(string \<Rightarrow> jsnum) \<Rightarrow> json option \<Rightarrow> js_error + jsnum" where
  "Number StringToNumber x =
     (case x of
        None \<Rightarrow> Inr NaN
      | Some JNull \<Rightarrow> Inr (Num 0)
      | Some (JBool b) \<Rightarrow> Inr (Num (if b then 1 else 0))
      | Some (JNumber n) \<Rightarrow> Inr (Num n)
      | Some (JString s) \<Rightarrow> Inr (StringToNumber s)
      | Some v \<Rightarrow> (case ToString v of Inl e \<Rightarrow> Inl e | Inr s \<Rightarrow> Inr (StringToNumber s)))"

text \<open>Truthiness of a value that may be \<open>undefined\<close>, as \<open>||\<close> tests it.\<close>

definition js_truthy :: "json option \<Rightarrow> bool" where
  "js_truthy x =
     (case x of
        None \<Rightarrow> False
      | Some JNull \<Rightarrow> False
      | Some (JBool b) \<Rightarrow> b
      | Some (JNumber n) \<Rightarrow> n \<noteq> 0
      | Some (JString s) \<Rightarrow> s \<noteq> []
      | Some v \<Rightarrow> True)"

text \<open>\<open>x ?? []\<close>: the empty array for \<open>undefined\<close> and \<open>null\<close>.\<close>

definition or_empty_array :: "json option \<Rightarrow> json" where
  "or_empty_array x = (case x of None \<Rightarrow> JArray [] | Some JNull \<Rightarrow> JArray [] | Some v \<Rightarrow> v)"

text \<open>
  \<open>x.length === 0\<close> for a value that is not \<open>null\<close>: the length of an array or a
  string, the member \<open>length\<close> of an object, \<open>undefined\<close> on a number or a boolean.
\<close>

fun length_is_zero :: "json \<Rightarrow> bool" where
  "length_is_zero (JArray xs) = (xs = [])"
| "length_is_zero (JString s) = (s = [])"
| "length_is_zero (JObject members) = (own_property members ''length'' = Some (JNumber 0))"
| "length_is_zero v = False"

text \<open>
  The three constants both handlers compute from the body: \<open>Number(body.threadId)\<close>,
  \<open>body.messages ?? []\<close> and \<open>body.model || getDefaultModel()\<close>.
\<close>

definition request_threadId :: "(string \<Rightarrow> jsnum) \<Rightarrow> json request \<Rightarrow> js_error + jsnum" where
  "request_threadId StringToNumber request =
     (case get_property (parsed_body request) ''threadId'' of
        Inl e \<Rightarrow> Inl e
      | Inr v \<Rightarrow> Number StringToNumber v)"

definition request_messages :: "json request \<Rightarrow> js_error + json" where
  "request_messages request =
     (case get_property (parsed_body request) ''messages'' of
        Inl e \<Rightarrow> Inl e
      | Inr v \<Rightarrow> Inr (or_empty_array v))"

definition request_model :: "runtime \<Rightarrow> json request \<Rightarrow> js_error + json" where
  "request_model r request =
     (case get_property (parsed_body request) ''model'' of
        Inl e \<Rightarrow> Inl e
      | Inr v \<Rightarrow> Inr (case v of
                       None \<Rightarrow> JString (getDefaultModel r)
                     | Some m \<Rightarrow> if js_truthy v then m else JString (getDefaultModel r)))"

section \<open>The completion endpoint \<open>POST /api/chat/ai\<close>\<close>

text \<open>
  \<open>messages.filter((m) => m.role === "user")\<close> on the elements of an array: reading
  \<open>role\<close> from a \<open>null\<close> element throws.
\<close>

fun user_messages :: "json list \<Rightarrow> js_error + json list" where
  "user_messages [] = Inr []"
| "user_messages (m # ms) =
     (case get_property m ''role'' of
        Inl e \<Rightarrow> Inl e
      | Inr r \<Rightarrow>
          (case user_messages ms of
             Inl e \<Rightarrow> Inl e
           | Inr us \<Rightarrow> Inr (if r = Some (JString ''user'') then m # us else us)))"

text \<open>
  \<open>messages.filter(...).pop()\<close>: only an array has \<open>filter\<close>; on any other value the
  call throws.
\<close>

definition lastUserMessage :: "json \<Rightarrow> js_error + json option" where
  "lastUserMessage msgs =
     (case msgs of
        JArray ms \<Rightarrow>
          (case user_messages ms of
             Inl e \<Rightarrow> Inl e
           | Inr us \<Rightarrow> Inr (if us = [] then None else Some (last us)))
      | _ \<Rightarrow> Inl TypeError)"

definition demo_text :: "string \<Rightarrow> string" where
  \<open>demo_text received =
     ''Demo reply: I received "'' @ received
     @ ''". Configure OPENROUTER_API_KEY for real responses.''\<close>

text \<open>The reply of demo mode, with \<open>lastUserMessage?.content\<close> put into the template.\<close>

definition demo_reply :: "json \<Rightarrow> js_error + string" where
  "demo_reply msgs =
     (case lastUserMessage msgs of
        Inl e \<Rightarrow> Inl e
      | Inr None \<Rightarrow> Inr (demo_text ''undefined'')
      | Inr (Some m) \<Rightarrow>
          (case get_property m ''content'' of
             Inl e \<Rightarrow> Inl e
           | Inr None \<Rightarrow> Inr (demo_text ''undefined'')
           | Inr (Some c) \<Rightarrow>
               (case ToString c of Inl e \<Rightarrow> Inl e | Inr s \<Rightarrow> Inr (demo_text s))))"

text \<open>
  \<open>messages.map((m) => ({ role: m.role, content: m.content }))\<close>, the messages handed
  to the completion collaborator.
\<close>

fun prompt_messages :: "json list \<Rightarrow> js_error + (json option \<times> json option) list" where
  "prompt_messages [] = Inr []"
| "prompt_messages (m # ms) =
     (case get_property m ''role'' of
        Inl e \<Rightarrow> Inl e
      | Inr r \<Rightarrow>
          (case get_property m ''content'' of
             Inl e \<Rightarrow> Inl e
           | Inr c \<Rightarrow>
               (case prompt_messages ms of Inl e \<Rightarrow> Inl e | Inr ps \<Rightarrow> Inr ((r, c) # ps))))"

definition map_messages :: "json \<Rightarrow> js_error + (json option \<times> json option) list" where
  "map_messages msgs = (case msgs of JArray ms \<Rightarrow> prompt_messages ms | _ \<Rightarrow> Inl TypeError)"

text \<open>\<open>JSON.stringify\<close> of a string, on bytes.\<close>

definition hex_char :: "nat \<Rightarrow> char" where
  "hex_char d = ''0123456789abcdef'' ! d"

definition quote_char :: "char \<Rightarrow> string" where
  "quote_char c =
     (if c = CHR 0x08 then [CHR 0x5C, CHR ''b'']
      else if c = CHR 0x09 then [CHR 0x5C, CHR ''t'']
      else if c = CHR 0x0A then [CHR 0x5C, CHR ''n'']
      else if c = CHR 0x0C then [CHR 0x5C, CHR ''f'']
      else if c = CHR 0x0D then [CHR 0x5C, CHR ''r'']
      else if c = CHR 0x22 then [CHR 0x5C, CHR 0x22]
      else if c = CHR 0x5C then [CHR 0x5C, CHR 0x5C]
      else if (of_char c :: nat) < 32
      then [CHR 0x5C, CHR ''u'', CHR ''0'', CHR ''0'',
            hex_char ((of_char c :: nat) div 16), hex_char ((of_char c :: nat) mod 16)]
      else [c])"

definition JSON_stringify :: "string \<Rightarrow> string" where
  "JSON_stringify s = [CHR 0x22] @ concat (map quote_char s) @ [CHR 0x22]"

text \<open>
  What \<open>streamText\<close> does when called: it throws, or it starts the upstream stream. The
  response that \<open>toTextStreamResponse\<close> builds has status 200 and a plain-text content
  type.
\<close>

datatype completion = StreamTextThrows js_error | Upstream "upstream_event list"

definition text_stream_headers :: "(string \<times> string) list" where
  "text_stream_headers = [(''content-type'', ''text/plain; charset=utf-8'')]"

text \<open>
  The handler. The body is read in the order of the source (\<open>threadId\<close>, \<open>messages\<close>,
  \<open>model\<close>), and whatever one of these throws leaves the handler at once. In real mode
  the argument of \<open>streamText\<close> is built before the call, so a throw of
  \<open>messages.map\<close> comes before any call of the collaborator.
\<close>

definition POST_ai ::
  "server \<Rightarrow> (string \<Rightarrow> jsnum) \<Rightarrow> completion \<Rightarrow> json request \<Rightarrow> result" where
  "POST_ai srv StringToNumber llm request =
     (case session_lookup srv request of
        Inl e \<Rightarrow> \<lparr> outcome = Inl e, effects = [] \<rparr>
      | Inr session \<Rightarrow>
          if \<not> truthy_str session
          then \<lparr> outcome = Inr (json_error 401 ''Unauthorized''), effects = [GetSession] \<rparr>
          else
            (case request_threadId StringToNumber request of
               Inl e \<Rightarrow> \<lparr> outcome = Inl e, effects = [GetSession] \<rparr>
             | Inr threadId \<Rightarrow>
            (case request_messages request of
               Inl e \<Rightarrow> \<lparr> outcome = Inl e, effects = [GetSession] \<rparr>
             | Inr msgs \<Rightarrow>
            (case request_model (rt srv) request of
               Inl e \<Rightarrow> \<lparr> outcome = Inl e, effects = [GetSession] \<rparr>
             | Inr mdl \<Rightarrow>
                if \<not> truthy_num threadId \<or> length_is_zero msgs
                then \<lparr> outcome = Inr (json_error 400 ''Missing threadId or messages''),
                       effects = [GetSession] \<rparr>
                else
                  (case threadId of
                     NaN \<Rightarrow> \<lparr> outcome = Inr (json_error 400 ''Missing threadId or messages''),
                              effects = [GetSession] \<rparr>
                   | Num tid \<Rightarrow>
                       (let thread = find (\<lambda>t. thread_id t = tid) (chat_threads srv);
                            forbidden = \<lparr> outcome = Inr (json_error 403 ''Forbidden''),
                                          effects = [GetSession, DbFindFirst tid] \<rparr>
                        in case thread of
                             None \<Rightarrow> forbidden
                           | Some th \<Rightarrow>
                               if Some (user_id th) \<noteq> session then forbidden
                               else
                                 (case getOpenRouter (rt srv) of
                                    None \<Rightarrow>
                                      (case demo_reply msgs of
                                         Inl e \<Rightarrow>
                                           \<lparr> outcome = Inl e,
                                             effects = [GetSession, DbFindFirst tid] \<rparr>
                                       | Inr reply \<Rightarrow>
                                           \<lparr> outcome = Inr
                                               \<lparr> status = 200,
                                                 resp_headers = text_stream_headers
                                                   @ [(''x-vercel-ai-data-stream'', ''v1'')],
                                                 resp_body = Chunks
                                                   [''0:'' @ JSON_stringify reply @ [CHR 0x0A]] \<rparr>,
                                             effects = [GetSession, DbFindFirst tid,
                                                        DbInsert tid ''assistant'' reply] \<rparr>)
                                  | Some apiKey \<Rightarrow>
                                      (case map_messages msgs of
                                         Inl e \<Rightarrow>
                                           \<lparr> outcome = Inl e,
                                             effects = [GetSession, DbFindFirst tid] \<rparr>
                                       | Inr prompt \<Rightarrow>
                                           (case llm of
                                              StreamTextThrows e \<Rightarrow>
                                                \<lparr> outcome = Inl e,
                                                  effects = [GetSession, DbFindFirst tid,
                                                             StreamText mdl prompt] \<rparr>
                                            | Upstream evs \<Rightarrow>
                                                \<lparr> outcome = Inr
                                                    \<lparr> status = 200,
                                                      resp_headers = text_stream_headers,
                                                      resp_body = TextStream evs (Some tid) \<rparr>,
                                                  effects = [GetSession, DbFindFirst tid,
                                                             StreamText mdl prompt] \<rparr>)))))))))"

text \<open>The \<open>onFinish\<close> callback the handler passes to \<open>streamText\<close>.\<close>

definition onFinish :: "int \<Rightarrow> string \<Rightarrow> effect list" where
  "onFinish tid txt = [DbInsert tid ''assistant'' txt]"

datatype stream_end = StillOpen | Closed | Errored

text \<open>
  Modelled from the spec: the streaming completion collaborator behind \<open>streamText\<close>
  and \<open>toTextStreamResponse\<close> (the AI SDK, outside the repository). Each text fragment
  is relayed as it arrives and added to the accumulated text; at the stream's natural end
  the finish callback runs once on the accumulated text; an error ends the stream
  without running it. The result is the chunks relayed, the effects of the callback and
  how the stream stands after the events given.
\<close>

fun relay ::
  "(string \<Rightarrow> effect list) \<Rightarrow> string \<Rightarrow> upstream_event list
     \<Rightarrow> string list \<times> effect list \<times> stream_end" where
  "relay fin acc [] = ([], [], StillOpen)"
| "relay fin acc (TextDelta d # evs) =
     (case relay fin (acc @ d) evs of (chunks, fx, e) \<Rightarrow> (d # chunks, fx, e))"
| "relay fin acc (Finish # evs) = ([], fin acc, Closed)"
| "relay fin acc (StreamError # evs) = ([], [], Errored)"

text \<open>Reading a response body to its end (or as far as the upstream events go).\<close>

fun read_body :: "body \<Rightarrow> string list \<times> effect list \<times> stream_end" where
  "read_body (Text s) = ([s], [], Closed)"
| "read_body (Chunks cs) = (cs, [], Closed)"
| "read_body (TextStream evs None) = relay (\<lambda>txt. []) [] evs"
| "read_body (TextStream evs (Some tid)) = relay (onFinish tid) [] evs"

section \<open>The guest endpoint \<open>POST /api/chat/guest\<close>\<close>

definition POST_guest :: "runtime \<Rightarrow> completion \<Rightarrow> json request \<Rightarrow> result" where
  "POST_guest r llm request =
     (case request_messages request of
        Inl e \<Rightarrow> \<lparr> outcome = Inl e, effects = [] \<rparr>
      | Inr msgs \<Rightarrow>
     (case request_model r request of
        Inl e \<Rightarrow> \<lparr> outcome = Inl e, effects = [] \<rparr>
      | Inr mdl \<Rightarrow>
         if length_is_zero msgs
         then \<lparr> outcome = Inr (json_error 400 ''Missing messages''), effects = [] \<rparr>
         else
           (case getOpenRouter r of
              None \<Rightarrow>
                (case demo_reply msgs of
                   Inl e \<Rightarrow> \<lparr> outcome = Inl e, effects = [] \<rparr>
                 | Inr reply \<Rightarrow>
                     \<lparr> outcome = Inr \<lparr> status = 200, resp_headers = text_stream_headers,
                                       resp_body = Chunks [reply] \<rparr>,
                       effects = [] \<rparr>)
            | Some apiKey \<Rightarrow>
                (case map_messages msgs of
                   Inl e \<Rightarrow> \<lparr> outcome = Inl e, effects = [] \<rparr>
                 | Inr prompt \<Rightarrow>
                     (case llm of
                        StreamTextThrows e \<Rightarrow>
                          \<lparr> outcome = Inl e, effects = [StreamText mdl prompt] \<rparr>
                      | Upstream evs \<Rightarrow>
                          \<lparr> outcome = Inr \<lparr> status = 200, resp_headers = text_stream_headers,
                                            resp_body = TextStream evs None \<rparr>,
                            effects = [StreamText mdl prompt] \<rparr>)))))"

section \<open>Reading results\<close>

text \<open>The status of the response, when the handler returns one.\<close>

definition status_of :: "result \<Rightarrow> nat option" where
  "status_of res = (case outcome res of Inl e \<Rightarrow> None | Inr resp \<Rightarrow> Some (status resp))"

text \<open>
  The ownership check of the completion endpoint: the first thread with that id exists
  and its owner is the user.
\<close>

definition owns :: "server \<Rightarrow> string \<Rightarrow> jsnum \<Rightarrow> bool" where
  "owns srv uid n =
     (case n of
        NaN \<Rightarrow> False
      | Num tid \<Rightarrow>
          (case find (\<lambda>t. thread_id t = tid) (chat_threads srv) of
             None \<Rightarrow> False
           | Some th \<Rightarrow> user_id th = uid))"

text \<open>What reading the body of the handler's response yields, when there is a response.\<close>

definition stream_of :: "result \<Rightarrow> (string list \<times> effect list \<times> stream_end) option" where
  "stream_of res =
     (case outcome res of Inl e \<Rightarrow> None | Inr resp \<Rightarrow> Some (read_body (resp_body resp)))"

definition is_db_access :: "effect \<Rightarrow> bool" where
  "is_db_access e =
     (case e of
        DbExecute _ \<Rightarrow> True | DbFindMany _ \<Rightarrow> True | DbFindFirst _ \<Rightarrow> True
      | DbInsert _ _ _ \<Rightarrow> True | _ \<Rightarrow> False)"

text \<open>
  A message of the declared shape as the parsed body has it: an object with the string
  members \<open>role\<close> and \<open>content\<close>.
\<close>

definition role_name :: "role \<Rightarrow> string" where
  "role_name r = (case r of User \<Rightarrow> ''user'' | Assistant \<Rightarrow> ''assistant'')"

definition json_of_msg :: "chat_msg \<Rightarrow> json" where
  "json_of_msg m =
     JObject [(''role'', JString (role_name (role m))), (''content'', JString (content m))]"

section \<open>The guest chat view\<close>

definition FREE_REQUEST_KEY :: string where
  "FREE_REQUEST_KEY = ''gen_chat_free_requests''"

definition FREE_REQUEST_LIMIT :: jsnum where
  "FREE_REQUEST_LIMIT = Num 1"

text \<open>\<open>a >= b\<close> on numbers: a comparison with \<open>NaN\<close> is false.\<close>

definition num_ge :: "jsnum \<Rightarrow> jsnum \<Rightarrow> bool" where
  "num_ge a b = (case a of NaN \<Rightarrow> False | Num x \<Rightarrow> (case b of NaN \<Rightarrow> False | Num y \<Rightarrow> y \<le> x))"

text \<open>
  \<open>a + 1\<close> on numbers. The sum is rounded to the nearest double, a tie going to the even
  significand: below \<open>2^53\<close> every integer is a double, from there on the doubles are
  \<open>ulp\<close> apart. The successor of a double never leaves the finite range.
\<close>

function ulp :: "int \<Rightarrow> int" where
  "ulp a = (if a < 2 ^ 53 then 1 else 2 * ulp (a div 2))"
  by pat_completeness auto
termination
  by (relation "measure nat") auto

declare ulp.simps [simp del]

definition round_double :: "int \<Rightarrow> int" where
  "round_double i =
     (let a = \<bar>i\<bar>;
          u = ulp a;
          q = a div u;
          r = a mod u;
          m = (if 2 * r < u then q else if u < 2 * r then q + 1
               else if even q then q else q + 1)
      in if i < 0 then - (m * u) else m * u)"

definition num_succ :: "jsnum \<Rightarrow> jsnum" where
  "num_succ a = (case a of NaN \<Rightarrow> NaN | Num x \<Rightarrow> Num (round_double (x + 1)))"

text \<open>
  The built-in functions of the platform that the view calls: \<open>String.prototype.trim\<close>,
  \<open>parseInt(s, 10)\<close> and \<open>Number.prototype.toString\<close>. They are parameters.
\<close>

record platform =
  trim :: "string \<Rightarrow> string"
  parseInt :: "string \<Rightarrow> jsnum"
  toString :: "jsnum \<Rightarrow> string"

text \<open>
  The counter helpers as they run in the browser, where \<open>window\<close> is defined:
  \<open>parseInt(localStorage.getItem(FREE_REQUEST_KEY) || "0", 10)\<close>, and its successor
  written back.
\<close>

definition getFreeRequestCount :: "platform \<Rightarrow> (string \<Rightarrow> string option) \<Rightarrow> jsnum" where
  "getFreeRequestCount pf storage =
     parseInt pf (case storage FREE_REQUEST_KEY of
                    None \<Rightarrow> ''0''
                  | Some v \<Rightarrow> if v = [] then ''0'' else v)"

definition incrementFreeRequestCount ::
  "platform \<Rightarrow> (string \<Rightarrow> string option) \<Rightarrow> jsnum \<times> (string \<Rightarrow> string option)" where
  "incrementFreeRequestCount pf storage =
     (let count = num_succ (getFreeRequestCount pf storage)
      in (count, storage (FREE_REQUEST_KEY \<mapsto> toString pf count)))"

record GuestMessage =
  msg_id :: int
  msg :: chat_msg

text \<open>
  The state of the \<open>GuestChat\<close> component, the selected model it is given, and the
  browser's local storage.
\<close>

record GuestChat =
  input :: string
  isLoading :: bool
  streamingContent :: string
  guestMessages :: "GuestMessage list"
  freeRequestsUsed :: jsnum
  showAuthPrompt :: bool
  selectedModel :: string
  localStorage :: "string \<Rightarrow> string option"

definition GuestChat_initial :: "string \<Rightarrow> (string \<Rightarrow> string option) \<Rightarrow> GuestChat" where
  "GuestChat_initial mdl storage =
     \<lparr> input = [], isLoading = False, streamingContent = [], guestMessages = [],
       freeRequestsUsed = Num 0, showAuthPrompt = False, selectedModel = mdl,
       localStorage = storage \<rparr>"

text \<open>The effect run once after the first render.\<close>

definition mount :: "platform \<Rightarrow> GuestChat \<Rightarrow> GuestChat" where
  "mount pf s = s \<lparr> freeRequestsUsed := getFreeRequestCount pf (localStorage s) \<rparr>"

text \<open>
  How the call of the guest endpoint ends: \<open>fetch\<close> throws, the response is not ok, it
  has no body, or it streams chunks and then ends (\<open>True\<close>) or fails (\<open>False\<close>).
\<close>

datatype fetch_result = FetchThrows | NotOk nat | NoBody | Stream "string list" bool

datatype client_effect = Fetch string "chat_msg list" string

text \<open>
  \<open>handleSend\<close> with the two readings of the clock and the outcome of the call; the
  states between the first chunk and the end of the stream are not kept.
\<close>

definition handleSend ::
  "platform \<Rightarrow> GuestChat \<Rightarrow> int \<Rightarrow> int \<Rightarrow> fetch_result \<Rightarrow> GuestChat \<times> client_effect list" where
  "handleSend pf s now1 now2 res =
     (if trim pf (input s) = [] \<or> isLoading s then (s, [])
      else
        (let userMessage = trim pf (input s);
             s1 = s \<lparr> input := [], isLoading := True, streamingContent := [] \<rparr>
         in if num_ge (freeRequestsUsed s) FREE_REQUEST_LIMIT
            then (s1 \<lparr> showAuthPrompt := True, isLoading := False \<rparr>, [])
            else
              (let newUserMsg = \<lparr> msg_id = now1, msg = \<lparr> role = User, content = userMessage \<rparr> \<rparr>;
                   s2 = s1 \<lparr> guestMessages := guestMessages s1 @ [newUserMsg] \<rparr>;
                   msgs = map msg (guestMessages s) @ [\<lparr> role = User, content = userMessage \<rparr>];
                   call = [Fetch ''/api/chat/guest'' msgs (selectedModel s)];
                   failed = (s2 \<lparr> streamingContent := [], isLoading := False \<rparr>, call)
               in case res of
                    FetchThrows \<Rightarrow> failed
                  | NotOk code \<Rightarrow> failed
                  | NoBody \<Rightarrow> failed
                  | Stream chunks ended \<Rightarrow>
                      if \<not> ended then failed
                      else
                        (let accumulated = concat chunks;
                             newAssistantMsg =
                               \<lparr> msg_id = now2 + 1,
                                 msg = \<lparr> role = Assistant, content = accumulated \<rparr> \<rparr>;
                             s3 = s2 \<lparr> guestMessages := guestMessages s2 @ [newAssistantMsg],
                                       streamingContent := [] \<rparr>;
                             counted = incrementFreeRequestCount pf (localStorage s3);
                             newCount = fst counted;
                             s4 = s3 \<lparr> freeRequestsUsed := newCount, localStorage := snd counted \<rparr>;
                             s5 = (if num_ge newCount FREE_REQUEST_LIMIT
                                   then s4 \<lparr> showAuthPrompt := True \<rparr> else s4)
                         in (s5 \<lparr> isLoading := False \<rparr>, call)))))"

text \<open>
  What can happen to a mounted view: typing, a submit (the form or the Enter key), the
  prompt's \<open>Maybe later\<close> button, and another tab of the same origin writing the
  shared local storage.
\<close>

datatype guest_event =
    SetInput string
  | Submit int int fetch_result
  | DismissAuthPrompt
  | OtherTabStores string string

fun step :: "platform \<Rightarrow> GuestChat \<Rightarrow> guest_event \<Rightarrow> GuestChat \<times> client_effect list" where
  "step pf s (SetInput v) = (s \<lparr> input := v \<rparr>, [])"
| "step pf s (Submit now1 now2 res) = handleSend pf s now1 now2 res"
| "step pf s DismissAuthPrompt = (s \<lparr> showAuthPrompt := False \<rparr>, [])"
| "step pf s (OtherTabStores k v) = (s \<lparr> localStorage := (localStorage s) (k \<mapsto> v) \<rparr>, [])"

fun run :: "platform \<Rightarrow> GuestChat \<Rightarrow> guest_event list \<Rightarrow> GuestChat \<times> client_effect list" where
  "run pf s [] = (s, [])"
| "run pf s (e # es) =
     (case step pf s e of (s1, fx1) \<Rightarrow> (case run pf s1 es of (s2, fx2) \<Rightarrow> (s2, fx1 @ fx2)))"

section \<open>Sample inputs\<close>

definition env_none :: runtime where
  "env_none = \<lparr> cloudflare = None, process_env = map_of [] \<rparr>"

definition env_secrets :: runtime where
  "env_secrets =
     \<lparr> cloudflare = None,
       process_env = map_of [(''DATABASE_URL'', ''postgres://db/chat''),
                             (''BETTER_AUTH_SECRET'', ''s3cret'')] \<rparr>"

definition env_llm :: runtime where
  "env_llm =
     \<lparr> cloudflare = None,
       process_env = map_of [(''DATABASE_URL'', ''postgres://db/chat''),
                             (''BETTER_AUTH_SECRET'', ''s3cret''),
                             (''OPENROUTER_API_KEY'', ''sk-or-1'')] \<rparr>"

text \<open>
  Three users: alice owns thread 3, bob owns thread 7, carol owns none. A request is
  theirs by its cookie.
\<close>

definition sample_sessions :: "(string \<times> string) list \<Rightarrow> string option" where
  "sample_sessions =
     map_of [([(''cookie'', ''alice'')], ''alice''),
             ([(''cookie'', ''bob'')], ''bob''),
             ([(''cookie'', ''carol'')], ''carol'')]"

definition sample_threads :: "chat_thread list" where
  "sample_threads =
     [\<lparr> thread_id = 3, title = ''New chat'', user_id = ''alice'' \<rparr>,
      \<lparr> thread_id = 7, title = ''New chat'', user_id = ''bob'' \<rparr>]"

definition sample_server :: "runtime \<Rightarrow> server" where
  "sample_server r =
     \<lparr> rt = r, cachedAuth = None, session_user = sample_sessions,
       chat_threads = sample_threads, ensure = BothSucceed \<rparr>"

definition electric_ok :: "url \<Rightarrow> js_error + response" where
  "electric_ok u = Inr \<lparr> status = 200, resp_headers = [], resp_body = Chunks [] \<rparr>"

text \<open>
  A stand-in for the platform's string-to-number conversion, used only on strings of
  decimal digits and on \<open>abc\<close>, where it agrees with the platform.
\<close>

definition is_digit :: "char \<Rightarrow> bool" where
  "is_digit c = (48 \<le> (of_char c :: nat) \<and> (of_char c :: nat) \<le> 57)"

definition digits_value :: "string \<Rightarrow> int" where
  "digits_value ds = foldl (\<lambda>a c. 10 * a + (int (of_char c) - 48)) 0 ds"

definition StringToNumber_digits :: "string \<Rightarrow> jsnum" where
  "StringToNumber_digits s = (if list_all is_digit s then Num (digits_value s) else NaN)"

text \<open>
  Stand-ins for the platform's \<open>trim\<close>, \<open>parseInt(s, 10)\<close> and number-to-string
  conversion, used only on ASCII text and on counters of a few digits, where they agree
  with the platform.
\<close>

definition is_space :: "char \<Rightarrow> bool" where
  "is_space c = (c \<in> set [CHR 0x20, CHR 0x09, CHR 0x0A, CHR 0x0B, CHR 0x0C, CHR 0x0D])"

definition trim_ascii :: "string \<Rightarrow> string" where
  "trim_ascii s = rev (dropWhile is_space (rev (dropWhile is_space s)))"

definition parseInt_ascii :: "string \<Rightarrow> jsnum" where
  "parseInt_ascii s =
     (let t = dropWhile is_space s;
          negative = (case t of [] \<Rightarrow> False | c # _ \<Rightarrow> c = CHR ''-'');
          u = (case t of [] \<Rightarrow> [] | c # cs \<Rightarrow> if c = CHR ''-'' \<or> c = CHR ''+'' then cs else t);
          ds = takeWhile is_digit u
      in if ds = [] then NaN
         else Num (if negative then - digits_value ds else digits_value ds))"

definition toString_decimal :: "jsnum \<Rightarrow> string" where
  "toString_decimal x = (case x of NaN \<Rightarrow> ''NaN'' | Num i \<Rightarrow> show_int i)"

definition sample_platform :: platform where
  "sample_platform =
     \<lparr> trim = trim_ascii, parseInt = parseInt_ascii, toString = toString_decimal \<rparr>"

definition sample_request ::
  "string \<Rightarrow> string \<Rightarrow> (string \<times> string) list \<Rightarrow> 'b option \<Rightarrow> 'b request" where
  "sample_request path who params b =
     \<lparr> req_url = \<lparr> endpoint = path, searchParams = params \<rparr>,
       req_headers = [(''cookie'', who)], req_json = b \<rparr>"

text \<open>A body of the declared shape.\<close>

definition sample_body :: "json option \<Rightarrow> chat_msg list \<Rightarrow> json" where
  "sample_body tid ms =
     JObject ((case tid of None \<Rightarrow> [] | Some t \<Rightarrow> [(''threadId'', t)])
              @ [(''messages'', JArray (map json_of_msg ms))])"




text \<open>The local storage of a browser in which the free request has been used.\<close>

definition storage_used :: "string \<Rightarrow> string option" where
  "storage_used = map_of [(FREE_REQUEST_KEY, ''1'')]"

definition hello :: "chat_msg list" where
  "hello = [\<lparr> role = User, content = ''hello'' \<rparr>]"


section \<open>The sync proxy: what is forwarded\<close>

lemma getAll_set_same:
  "searchParams_getAll name (searchParams_set name v ps) = [v]"
proof (induction ps)
  case Nil
  show ?case by (simp add: searchParams_getAll_def)
next
  case (Cons p ps)
  have "filter (\<lambda>p. fst p = name) (filter (\<lambda>p. fst p \<noteq> name) ps) = []"
    by (simp add: filter_empty_conv)
  with Cons show ?case
    by (cases p) (simp add: searchParams_getAll_def)
qed

lemma filter_set_other:
  assumes "\<And>p. P p \<Longrightarrow> fst p \<noteq> name"
  shows "filter P (searchParams_set name v ps) = filter P ps"
proof (induction ps)
  case Nil
  from assms[of "(name, v)"] show ?case by auto
next
  case (Cons p ps)
  obtain k w where p: "p = (k, w)" by (cases p)
  show ?case
  proof (cases "k = name")
    case True
    have no: "\<not> P (name, q)" for q
      using assms[of "(name, q)"] by auto
    have "filter P (filter (\<lambda>p. fst p \<noteq> name) ps) = filter P ps"
      unfolding filter_filter by (rule filter_cong) (use assms in auto)
    with True p no show ?thesis by simp
  next
    case False
    with p Cons.IH show ?thesis by simp
  qed
qed

lemma getAll_set_other:
  "k \<noteq> name \<Longrightarrow> searchParams_getAll k (searchParams_set name v ps) = searchParams_getAll k ps"
  unfolding searchParams_getAll_def by (subst filter_set_other) auto

lemma serve_authenticated:
  assumes "session_lookup srv request = Inr (Some uid)" and "uid \<noteq> []"
  shows "serve srv prep proxy request =
           (let u0 = prep (req_url request);
                u = u0 \<lparr> searchParams :=
                      searchParams_set ''where''
                        (where_param (map thread_id (filter (\<lambda>t. user_id t = uid) (chat_threads srv))))
                        (searchParams_set ''table'' ''chat_messages'' (searchParams u0)) \<rparr>
            in \<lparr> outcome = proxy u,
                 effects = [GetSession] @ ensure_effects (ensure srv) @ [DbFindMany uid, ProxyElectric u] \<rparr>)"
  using assms by (simp add: serve_def Let_def)

lemma forwarded_append: "forwarded (xs @ ys) = forwarded xs @ forwarded ys"
  by (induction xs rule: forwarded.induct) auto

lemma forwarded_ensure: "forwarded (ensure_effects e) = []"
  by (cases e) (simp_all add: ensure_effects_def)

lemma serve_forwarded:
  assumes "session_lookup srv request = Inr (Some uid)" and "uid \<noteq> []"
  shows "forwarded (effects (serve srv prep proxy request)) =
           [(prep (req_url request)) \<lparr> searchParams :=
              searchParams_set ''where''
                (where_param (map thread_id (filter (\<lambda>t. user_id t = uid) (chat_threads srv))))
                (searchParams_set ''table'' ''chat_messages'' (searchParams (prep (req_url request)))) \<rparr>]"
  by (simp add: serve_authenticated[OF assms] Let_def forwarded_append forwarded_ensure)

lemma sample_lookup:
  "session_lookup (sample_server env_secrets) (sample_request path ''alice'' ps b) = Inr (Some ''alice'')"
  by (simp add: session_lookup_def sample_server_def env_secrets_def getAuth_def getEnv_def
      cf_var_def nullish_def sample_sessions_def sample_request_def)

lemma sample_lookup_anonymous:
  "session_lookup (sample_server env_secrets) (sample_request path ''nobody'' ps b) = Inr None"
  by (simp add: session_lookup_def sample_server_def env_secrets_def getAuth_def getEnv_def
      cf_var_def nullish_def sample_sessions_def sample_request_def)

lemma where_param_empty: \<open>where_param [] = render (ThreadIdEq (- 1))\<close>
  by (simp add: where_param_def show_int_def digit_char_def)

lemma where_param_render:
  "where_param ids = render (if length ids > 0 then ThreadIdIn ids else ThreadIdEq (- 1))"
  using where_param_empty by (simp add: where_param_def)





text \<open>
  Claim C6, as the code has it. For an authenticated request the forwarded URL is the one
  \<open>prepareElectricUrl\<close> returns with \<open>table\<close> set to \<open>chat_messages\<close> and \<open>where\<close> set to
  the ownership filter: each is the only parameter of its name afterwards, so a \<open>where\<close>
  (or \<open>table\<close>) parameter already present is replaced, not kept beside the filter. Every
  other parameter is forwarded unchanged and in order.
\<close>

theorem ownership_filter_replaces_where:
  assumes "session_lookup srv request = Inr (Some uid)" and "uid \<noteq> []"
  shows "\<exists>u. forwarded (effects (serve srv prep proxy request)) = [u]
           \<and> outcome (serve srv prep proxy request) = proxy u
           \<and> endpoint u = endpoint (prep (req_url request))
           \<and> searchParams_getAll ''table'' (searchParams u) = [''chat_messages'']
           \<and> searchParams_getAll ''where'' (searchParams u) =
               [where_param (map thread_id (filter (\<lambda>t. user_id t = uid) (chat_threads srv)))]
           \<and> filter (\<lambda>p. fst p \<noteq> ''where'' \<and> fst p \<noteq> ''table'') (searchParams u) =
               filter (\<lambda>p. fst p \<noteq> ''where'' \<and> fst p \<noteq> ''table'')
                 (searchParams (prep (req_url request)))"
proof -
  let ?ids = "map thread_id (filter (\<lambda>t. user_id t = uid) (chat_threads srv))"
  let ?base = "prep (req_url request)"
  let ?ps = "searchParams_set ''where'' (where_param ?ids)
               (searchParams_set ''table'' ''chat_messages'' (searchParams ?base))"
  let ?u = "?base \<lparr> searchParams := ?ps \<rparr>"
  have fw: "forwarded (effects (serve srv prep proxy request)) = [?u]"
    by (rule serve_forwarded[OF assms])
  have out: "outcome (serve srv prep proxy request) = proxy ?u"
    by (simp add: serve_authenticated[OF assms] Let_def)
  have tbl: "searchParams_getAll ''table'' ?ps = [''chat_messages'']"
    by (simp add: getAll_set_other getAll_set_same)
  have whr: "searchParams_getAll ''where'' ?ps = [where_param ?ids]"
    by (simp add: getAll_set_same)
  have "filter (\<lambda>p. fst p \<noteq> ''where'' \<and> fst p \<noteq> ''table'') ?ps
          = filter (\<lambda>p. fst p \<noteq> ''where'' \<and> fst p \<noteq> ''table'')
              (searchParams_set ''table'' ''chat_messages'' (searchParams ?base))"
    by (rule filter_set_other) simp
  also have "\<dots> = filter (\<lambda>p. fst p \<noteq> ''where'' \<and> fst p \<noteq> ''table'') (searchParams ?base)"
    by (rule filter_set_other) simp
  finally have rest: "filter (\<lambda>p. fst p \<noteq> ''where'' \<and> fst p \<noteq> ''table'') ?ps
          = filter (\<lambda>p. fst p \<noteq> ''where'' \<and> fst p \<noteq> ''table'') (searchParams ?base)" .
  show ?thesis
    using fw out tbl whr rest by (intro exI[of _ ?u]) simp
qed

theorem ownership_filter_replaces_where_witness:
  \<open>session_lookup (sample_server env_secrets)
      (sample_request ''/api/chat-messages'' ''alice''
         [(''offset'', ''-1''), (''where'', ''1=1'')] (None :: unit option)) = Inr (Some ''alice'')
   \<and> ''alice'' \<noteq> []
   \<and> (\<exists>u. forwarded (effects (serve (sample_server env_secrets) id electric_ok
          (sample_request ''/api/chat-messages'' ''alice''
             [(''offset'', ''-1''), (''where'', ''1=1'')] (None :: unit option)))) = [u]
        \<and> searchParams_getAll ''table'' (searchParams u) = [''chat_messages'']
        \<and> searchParams_getAll ''where'' (searchParams u) = [''"thread_id" IN (3)'']
        \<and> filter (\<lambda>p. fst p \<noteq> ''where'' \<and> fst p \<noteq> ''table'') (searchParams u)
            = [(''offset'', ''-1'')])\<close>
proof -
  let ?req = "sample_request ''/api/chat-messages'' ''alice''
                [(''offset'', ''-1''), (''where'', ''1=1'')] (None :: unit option)"
  have h: "session_lookup (sample_server env_secrets) ?req = Inr (Some ''alice'')"
    by (rule sample_lookup)
  have ne: "''alice'' \<noteq> []" by simp
  have ids: \<open>where_param (map thread_id (filter (\<lambda>t. user_id t = ''alice'')
               (chat_threads (sample_server env_secrets)))) = ''"thread_id" IN (3)''\<close>
    by code_simp
  have ps: "searchParams (id (req_url ?req)) = [(''offset'', ''-1''), (''where'', ''1=1'')]"
    by (simp add: sample_request_def)
  from ownership_filter_replaces_where[OF h ne, of id electric_ok]
  show ?thesis using h ids ps by auto
qed

text \<open>
  The claim as written fails: a \<open>where\<close> parameter that reaches the handler is not among
  the forwarded parameters.
\<close>

theorem client_where_not_preserved:
  \<open>(''where'', ''1=1'') \<notin> set (concat (map searchParams (forwarded (effects
      (serve (sample_server env_secrets) id electric_ok
         (sample_request ''/api/chat-messages'' ''alice''
            [(''offset'', ''-1''), (''where'', ''1=1'')] (None :: unit option))))))) \<and>
   map searchParams (forwarded (effects
      (serve (sample_server env_secrets) id electric_ok
         (sample_request ''/api/chat-messages'' ''alice''
            [(''offset'', ''-1''), (''where'', ''1=1'')] (None :: unit option)))))
     = [[(''offset'', ''-1''), (''where'', ''"thread_id" IN (3)''), (''table'', ''chat_messages'')]]\<close>
  by code_simp

section \<open>Requests without a session\<close>




lemma stream_of_json_error:
  \<open>stream_of \<lparr> outcome = Inr (json_error code reason), effects = fx \<rparr>
     = Some ([''{"error":"'' @ reason @ ''"}''], [], Closed)\<close>
  by (simp add: stream_of_def json_error_def)



section \<open>The completion endpoint: validation and ownership\<close>

text \<open>Reading from a body that is not \<open>null\<close> never throws.\<close>

lemma get_property_throws: "(get_property b k = Inl e) = (b = JNull \<and> e = TypeError)"
  by (cases b) auto

lemma request_threadId_body:
  assumes "request_threadId S2N request = Inr n"
  shows "parsed_body request \<noteq> JNull"
  using assms by (auto simp: request_threadId_def)

lemma request_messages_total:
  assumes "parsed_body request \<noteq> JNull"
  shows "\<exists>msgs. request_messages request = Inr msgs"
  using assms by (cases "parsed_body request") (auto simp: request_messages_def)

lemma request_model_total:
  assumes "parsed_body request \<noteq> JNull"
  shows "\<exists>mdl. request_model r request = Inr mdl"
  using assms by (cases "parsed_body request") (auto simp: request_model_def)

lemma request_messages_not_null:
  assumes "request_messages request = Inr msgs"
  shows "parsed_body request \<noteq> JNull"
  using assms by (auto simp: request_messages_def)

text \<open>The handler once the session has resolved to a user, check by check.\<close>

lemma POST_ai_validated:
  assumes "session_lookup srv request = Inr (Some uid)" and "uid \<noteq> []"
      and "request_threadId S2N request = Inr n"
      and "request_messages request = Inr msgs"
      and "request_model (rt srv) request = Inr mdl"
  shows "POST_ai srv S2N llm request =
     (if \<not> truthy_num n \<or> length_is_zero msgs
      then \<lparr> outcome = Inr (json_error 400 ''Missing threadId or messages''), effects = [GetSession] \<rparr>
      else (case n of
              NaN \<Rightarrow> \<lparr> outcome = Inr (json_error 400 ''Missing threadId or messages''), effects = [GetSession] \<rparr>
            | Num tid \<Rightarrow>
                if \<not> owns srv uid (Num tid)
                then \<lparr> outcome = Inr (json_error 403 ''Forbidden''), effects = [GetSession, DbFindFirst tid] \<rparr>
                else (case getOpenRouter (rt srv) of
                        None \<Rightarrow>
                          (case demo_reply msgs of
                             Inl e \<Rightarrow> \<lparr> outcome = Inl e, effects = [GetSession, DbFindFirst tid] \<rparr>
                           | Inr reply \<Rightarrow>
                               \<lparr> outcome = Inr \<lparr> status = 200,
                                     resp_headers = text_stream_headers @ [(''x-vercel-ai-data-stream'', ''v1'')],
                                     resp_body = Chunks [''0:'' @ JSON_stringify reply @ [CHR 0x0A]] \<rparr>,
                                 effects = [GetSession, DbFindFirst tid, DbInsert tid ''assistant'' reply] \<rparr>)
                      | Some apiKey \<Rightarrow>
                          (case map_messages msgs of
                             Inl e \<Rightarrow> \<lparr> outcome = Inl e, effects = [GetSession, DbFindFirst tid] \<rparr>
                           | Inr prompt \<Rightarrow>
                               (case llm of
                                  StreamTextThrows e \<Rightarrow>
                                    \<lparr> outcome = Inl e,
                                      effects = [GetSession, DbFindFirst tid, StreamText mdl prompt] \<rparr>
                                | Upstream evs \<Rightarrow>
                                    \<lparr> outcome = Inr \<lparr> status = 200, resp_headers = text_stream_headers,
                                                      resp_body = TextStream evs (Some tid) \<rparr>,
                                      effects = [GetSession, DbFindFirst tid, StreamText mdl prompt] \<rparr>)))))"
  using assms
  by (auto simp: POST_ai_def truthy_str_def owns_def Let_def
      split: jsnum.splits option.splits completion.splits sum.splits)

lemma POST_ai_rejected:
  assumes "session_lookup srv request = Inr (Some uid)" and "uid \<noteq> []"
      and "request_threadId S2N request = Inr n"
      and "request_messages request = Inr msgs"
      and "\<not> owns srv uid n"
  shows "POST_ai srv S2N llm request =
           (if truthy_num n \<and> \<not> length_is_zero msgs
            then \<lparr> outcome = Inr (json_error 403 ''Forbidden''),
                   effects = GetSession # (case n of NaN \<Rightarrow> [] | Num tid \<Rightarrow> [DbFindFirst tid]) \<rparr>
            else \<lparr> outcome = Inr (json_error 400 ''Missing threadId or messages''),
                   effects = [GetSession] \<rparr>)"
proof -
  from request_model_total[OF request_threadId_body[OF assms(3)]]
  obtain mdl where m: "request_model (rt srv) request = Inr mdl" by blast
  show ?thesis
    using assms(5)
    by (cases n) (simp_all add: POST_ai_validated[OF assms(1,2,3,4) m] truthy_num_def)
qed

text \<open>The values of \<open>threadId\<close> that \<open>Number\<close> takes to a falsy number.\<close>

lemma falsy_threadId_cases:
  "(\<exists>n. Number S2N x = Inr n \<and> \<not> truthy_num n) =
     (x = None \<or> x = Some JNull \<or> x = Some (JBool False) \<or> x = Some (JNumber 0)
      \<or> (\<exists>s. x = Some (JString s) \<and> \<not> truthy_num (S2N s))
      \<or> (\<exists>xs s. x = Some (JArray xs) \<and> ToString (JArray xs) = Inr s \<and> \<not> truthy_num (S2N s))
      \<or> (\<exists>ms s. x = Some (JObject ms) \<and> ToString (JObject ms) = Inr s \<and> \<not> truthy_num (S2N s)))"
  by (auto simp: Number_def truthy_num_def split: option.splits json.splits sum.splits)

lemma sample_lookup_ai:
  "session_lookup (sample_server r) (sample_request path who ps b) =
     (case getEnv r of Inl e \<Rightarrow> Inl e | Inr _ \<Rightarrow> Inr (sample_sessions [(''cookie'', who)]))"
  by (simp add: session_lookup_def sample_server_def getAuth_def sample_request_def
      split: sum.splits)

lemma getEnv_secrets: "\<exists>e. getEnv env_secrets = Inr e"
  by (simp add: getEnv_def env_secrets_def cf_var_def nullish_def)

lemma getEnv_llm: "\<exists>e. getEnv env_llm = Inr e"
  by (simp add: getEnv_def env_llm_def cf_var_def nullish_def)

lemma no_insert_simps:
  "is_insert GetSession = False" "is_insert (DbFindFirst t) = False"
  "is_insert (StreamText m ms) = False" "is_insert (DbInsert t r c) = True"
  by (simp_all add: is_insert_def)

lemma sample_body_reads:
  "request_threadId S2N (sample_request p w ps (Some (sample_body tid ms))) = Number S2N tid"
  "request_messages (sample_request p w ps (Some (sample_body tid ms))) = Inr (JArray (map json_of_msg ms))"
  by (cases tid; simp add: request_threadId_def request_messages_def parsed_body_def
      sample_request_def sample_body_def own_property_def or_empty_array_def)+

text \<open>
  Claim C10, as the code has it. For a request whose \<open>threadId\<close> coerces to a falsy
  number (the coercion returns: the body is not \<open>null\<close>, and the field is absent, \<open>null\<close>,
  \<open>false\<close>, the number 0, or a string, array or object that converts to \<open>NaN\<close> or 0) the
  response is 400 when the session lookup has resolved to a user, and nothing but that
  lookup has happened. The session check comes first: without a user the response is
  401.
\<close>

theorem falsy_threadId_is_400:
  assumes "session_lookup srv request = Inr sid"
      and "request_threadId StringToNumber request = Inr n" and "\<not> truthy_num n"
  shows "POST_ai srv StringToNumber llm request =
           (if truthy_str sid
            then \<lparr> outcome = Inr (json_error 400 ''Missing threadId or messages''),
                   effects = [GetSession] \<rparr>
            else \<lparr> outcome = Inr (json_error 401 ''Unauthorized''), effects = [GetSession] \<rparr>)
         \<and> status_of (POST_ai srv StringToNumber llm request)
             = Some (if truthy_str sid then 400 else 401)"
proof (cases "truthy_str sid")
  case False
  with assms(1) show ?thesis
    by (simp add: POST_ai_def status_of_def json_error_def)
next
  case True
  then obtain uid where sid: "sid = Some uid" and ne: "uid \<noteq> []"
    by (auto simp: truthy_str_def split: option.splits)
  from request_messages_total[OF request_threadId_body[OF assms(2)]]
  obtain msgs where ms: "request_messages request = Inr msgs" by blast
  from request_model_total[OF request_threadId_body[OF assms(2)]]
  obtain mdl where md: "request_model (rt srv) request = Inr mdl" by blast
  from assms(1) sid have l: "session_lookup srv request = Inr (Some uid)" by simp
  show ?thesis
    using True assms(3)
    by (simp add: POST_ai_validated[OF l ne assms(2) ms md] status_of_def json_error_def)
qed

theorem falsy_threadId_is_400_witness:
  "request_threadId StringToNumber_digits
      (sample_request ''/api/chat/ai'' ''alice'' [] (Some (sample_body (Some (JString ''abc'')) hello)))
     = Inr NaN
   \<and> request_threadId StringToNumber_digits
      (sample_request ''/api/chat/ai'' ''alice'' [] (Some (sample_body (Some (JNumber 0)) hello)))
     = Inr (Num 0)
   \<and> request_threadId StringToNumber_digits
      (sample_request ''/api/chat/ai'' ''alice'' [] (Some (sample_body None hello)))
     = Inr NaN
   \<and> status_of (POST_ai (sample_server env_secrets) StringToNumber_digits (Upstream [])
        (sample_request ''/api/chat/ai'' ''alice'' []
           (Some (sample_body (Some (JString ''abc'')) hello)))) = Some 400
   \<and> status_of (POST_ai (sample_server env_secrets) StringToNumber_digits (Upstream [])
        (sample_request ''/api/chat/ai'' ''alice'' []
           (Some (sample_body (Some (JNumber 0)) hello)))) = Some 400
   \<and> status_of (POST_ai (sample_server env_secrets) StringToNumber_digits (Upstream [])
        (sample_request ''/api/chat/ai'' ''alice'' []
           (Some (sample_body None hello)))) = Some 400
   \<and> status_of (POST_ai (sample_server env_secrets) StringToNumber_digits (Upstream [])
        (sample_request ''/api/chat/ai'' ''nobody'' []
           (Some (sample_body None hello)))) = Some 401"
proof -
  have f1: "request_threadId StringToNumber_digits
      (sample_request ''/api/chat/ai'' w [] (Some (sample_body (Some (JString ''abc'')) hello)))
     = Inr NaN" for w
    by (simp add: sample_body_reads Number_def StringToNumber_digits_def is_digit_def)
  have f2: "request_threadId StringToNumber_digits
      (sample_request ''/api/chat/ai'' w [] (Some (sample_body (Some (JNumber 0)) hello)))
     = Inr (Num 0)" for w
    by (simp add: sample_body_reads Number_def)
  have f3: "request_threadId StringToNumber_digits
      (sample_request ''/api/chat/ai'' w [] (Some (sample_body None hello)))
     = Inr NaN" for w
    by (simp add: sample_body_reads Number_def)
  have n1: "\<not> truthy_num NaN" and n2: "\<not> truthy_num (Num 0)"
    by (simp_all add: truthy_num_def)
  have t: "truthy_str (Some ''alice'')" and u: "\<not> truthy_str None"
    by (simp_all add: truthy_str_def)
  from falsy_threadId_is_400[OF sample_lookup f1 n1, of "Upstream []"]
       falsy_threadId_is_400[OF sample_lookup f2 n2, of "Upstream []"]
       falsy_threadId_is_400[OF sample_lookup f3 n1, of "Upstream []"]
       falsy_threadId_is_400[OF sample_lookup_anonymous f3 n1, of "Upstream []"]
  show ?thesis using f1 f2 f3 t u by (simp add: status_of_def json_error_def)
qed

text \<open>The claim as written fails for a request without a session: it is answered 401.\<close>

theorem falsy_threadId_without_session_is_401:
  "request_threadId StringToNumber_digits
      (sample_request ''/api/chat/ai'' ''nobody'' [] (Some (sample_body (Some (JNumber 0)) hello)))
     = Inr (Num 0)
   \<and> \<not> truthy_num (Num 0)
   \<and> status_of (POST_ai (sample_server env_secrets) StringToNumber_digits (Upstream [])
        (sample_request ''/api/chat/ai'' ''nobody'' []
           (Some (sample_body (Some (JNumber 0)) hello)))) = Some 401"
  by code_simp

text \<open>
  Claim C2, as the code has it. For an authenticated request whose body can be read (it
  is not \<open>null\<close>) and whose thread does not exist or belongs to someone else, the response
  is 403 when the request carries a truthy \<open>threadId\<close> and a \<open>messages\<close> value whose
  length is not 0, and 400 otherwise (the validation comes before the ownership check).
  In both cases the handler has only looked up the session and, for 403, the thread: it
  inserts nothing, calls no collaborator, and its response is a complete text, so
  nothing is persisted when it is read either.
\<close>

theorem thread_not_owned_is_403_or_400:
  assumes "session_lookup srv request = Inr (Some uid)" and "uid \<noteq> []"
      and "request_threadId StringToNumber request = Inr n"
      and "request_messages request = Inr msgs"
      and "\<not> owns srv uid n"
  shows \<open>POST_ai srv StringToNumber llm request =
           (if truthy_num n \<and> \<not> length_is_zero msgs
            then \<lparr> outcome = Inr (json_error 403 ''Forbidden''),
                   effects = GetSession # (case n of NaN \<Rightarrow> [] | Num tid \<Rightarrow> [DbFindFirst tid]) \<rparr>
            else \<lparr> outcome = Inr (json_error 400 ''Missing threadId or messages''),
                   effects = [GetSession] \<rparr>)
         \<and> status_of (POST_ai srv StringToNumber llm request) =
             Some (if truthy_num n \<and> \<not> length_is_zero msgs then 403 else 400)
         \<and> filter is_insert (effects (POST_ai srv StringToNumber llm request)) = []
         \<and> filter is_network (effects (POST_ai srv StringToNumber llm request)) = []
         \<and> stream_of (POST_ai srv StringToNumber llm request) =
             Some ([if truthy_num n \<and> \<not> length_is_zero msgs
                    then ''{"error":"Forbidden"}''
                    else ''{"error":"Missing threadId or messages"}''], [], Closed)\<close>
  by (cases n)
     (simp_all add: POST_ai_rejected[OF assms] status_of_def stream_of_def json_error_def
       is_insert_def is_network_def)

theorem thread_not_owned_is_403_or_400_witness:
  \<open>\<not> owns (sample_server env_secrets) ''alice'' (Num 7)
   \<and> POST_ai (sample_server env_secrets) StringToNumber_digits (Upstream [])
        (sample_request ''/api/chat/ai'' ''alice'' [] (Some (sample_body (Some (JNumber 7)) hello)))
       = \<lparr> outcome = Inr (json_error 403 ''Forbidden''), effects = [GetSession, DbFindFirst 7] \<rparr>
   \<and> stream_of (POST_ai (sample_server env_secrets) StringToNumber_digits (Upstream [])
        (sample_request ''/api/chat/ai'' ''alice'' [] (Some (sample_body (Some (JNumber 7)) hello))))
       = Some ([''{"error":"Forbidden"}''], [], Closed)\<close>
proof -
  let ?req = "sample_request ''/api/chat/ai'' ''alice'' [] (Some (sample_body (Some (JNumber 7)) hello))"
  have ne: "''alice'' \<noteq> []" by simp
  have tid: "request_threadId StringToNumber_digits ?req = Inr (Num 7)"
    by (simp add: sample_body_reads Number_def)
  have ms: "request_messages ?req = Inr (JArray (map json_of_msg hello))"
    by (simp add: sample_body_reads)
  have no: "\<not> owns (sample_server env_secrets) ''alice'' (Num 7)"
    by (simp add: owns_def sample_server_def sample_threads_def)
  have len: "\<not> length_is_zero (JArray (map json_of_msg hello))"
    by (simp add: hello_def)
  from thread_not_owned_is_403_or_400[OF sample_lookup ne tid ms no, of "Upstream []"] len no
  show ?thesis by (simp add: truthy_num_def stream_of_def json_error_def)
qed

text \<open>
  The claim as written fails for a request that names another user's thread and carries
  no messages: it is answered 400.
\<close>

theorem thread_not_owned_without_messages_is_400:
  "\<not> owns (sample_server env_secrets) ''alice'' (Num 7)
   \<and> request_threadId StringToNumber_digits
        (sample_request ''/api/chat/ai'' ''alice'' [] (Some (sample_body (Some (JNumber 7)) [])))
       = Inr (Num 7)
   \<and> status_of (POST_ai (sample_server env_secrets) StringToNumber_digits (Upstream [])
        (sample_request ''/api/chat/ai'' ''alice'' []
           (Some (sample_body (Some (JNumber 7)) [])))) = Some 400"
  by code_simp

section \<open>The completion endpoint: demo mode and real mode\<close>






lemma prompt_messages_total:
  "JNull \<notin> set ms \<Longrightarrow> \<exists>prompt. prompt_messages ms = Inr prompt"
proof (induction ms)
  case Nil
  show ?case by simp
next
  case (Cons m ms)
  then obtain prompt where p: "prompt_messages ms = Inr prompt" by auto
  from Cons.prems have "m \<noteq> JNull" by auto
  then obtain r c where "get_property m ''role'' = Inr r" "get_property m ''content'' = Inr c"
    by (cases m) auto
  with p show ?case by simp
qed


lemma relay_chunks:
  "relay fin acc (map TextDelta chunks @ rest) =
     (case relay fin (acc @ concat chunks) rest of (cs, fx, e) \<Rightarrow> (chunks @ cs, fx, e))"
  by (induction chunks arbitrary: acc) (auto split: prod.splits)

lemma relay_finished:
  "relay fin [] (map TextDelta chunks @ [Finish]) = (chunks, fin (concat chunks), Closed)"
  by (simp add: relay_chunks)

lemma relay_open:
  "relay fin [] (map TextDelta chunks) = (chunks, [], StillOpen)"
  using relay_chunks[of fin "[]" chunks "[]"] by simp

lemma relay_errored:
  "relay fin [] (map TextDelta chunks @ [StreamError]) = (chunks, [], Errored)"
  by (simp add: relay_chunks)

lemma getOpenRouter_llm: "getOpenRouter env_llm = Some ''sk-or-1''"
  by (simp add: getOpenRouter_def getApiKey_def env_llm_def cf_var_def truthy_str_def)

lemma sample_lookup_llm:
  "session_lookup (sample_server env_llm) (sample_request path ''alice'' ps b) = Inr (Some ''alice'')"
  using getEnv_llm by (auto simp: sample_lookup_ai sample_sessions_def)




text \<open>
  Claim C4. An authorized request on a server with an LLM key, whose \<open>messages\<close> value is
  a non-empty array without \<open>null\<close> elements and whose upstream stream delivers the
  fragments \<open>chunks\<close>: when the stream then ends, reading the response relays the
  fragments and inserts exactly one assistant message, the concatenation of all of them;
  the handler itself inserts nothing, nothing is inserted while the stream is still open
  after those fragments, and nothing is inserted when the stream fails after them.
\<close>

theorem real_mode_persists_once_at_end:
  assumes "session_lookup srv request = Inr (Some uid)" and "uid \<noteq> []"
      and "request_threadId StringToNumber request = Inr (Num tid)" and "tid \<noteq> 0"
      and "owns srv uid (Num tid)"
      and "request_messages request = Inr (JArray ms)" and "ms \<noteq> []" and "JNull \<notin> set ms"
      and "getOpenRouter (rt srv) = Some apiKey"
  shows "stream_of (POST_ai srv StringToNumber (Upstream (map TextDelta chunks @ [Finish])) request)
           = Some (chunks, [DbInsert tid ''assistant'' (concat chunks)], Closed)
       \<and> filter is_insert
           (effects (POST_ai srv StringToNumber (Upstream (map TextDelta chunks @ [Finish])) request)) = []
       \<and> stream_of (POST_ai srv StringToNumber (Upstream (map TextDelta chunks)) request)
           = Some (chunks, [], StillOpen)
       \<and> stream_of (POST_ai srv StringToNumber (Upstream (map TextDelta chunks @ [StreamError])) request)
           = Some (chunks, [], Errored)
       \<and> filter is_insert
           (effects (POST_ai srv StringToNumber (Upstream (map TextDelta chunks @ [StreamError])) request)) = []"
proof -
  from request_model_total[OF request_threadId_body[OF assms(3)]]
  obtain mdl where md: "request_model (rt srv) request = Inr mdl" by blast
  from prompt_messages_total[OF assms(8)]
  obtain prompt where pr: "map_messages (JArray ms) = Inr prompt"
    by (auto simp: map_messages_def)
  have run: "POST_ai srv StringToNumber (Upstream evs) request =
      \<lparr> outcome = Inr \<lparr> status = 200, resp_headers = text_stream_headers,
                        resp_body = TextStream evs (Some tid) \<rparr>,
        effects = [GetSession, DbFindFirst tid, StreamText mdl prompt] \<rparr>" for evs
    using assms(4,5,7,9) pr
    by (simp add: POST_ai_validated[OF assms(1,2,3,6) md] truthy_num_def)
  show ?thesis
    unfolding run
    by (simp add: stream_of_def relay_finished relay_open relay_errored onFinish_def
        no_insert_simps)
qed

theorem real_mode_persists_once_at_end_witness:
  "owns (sample_server env_llm) ''alice'' (Num 3)
   \<and> getOpenRouter (rt (sample_server env_llm)) = Some ''sk-or-1''
   \<and> stream_of (POST_ai (sample_server env_llm) StringToNumber_digits
        (Upstream [TextDelta ''Hi'', TextDelta '' there'', Finish])
        (sample_request ''/api/chat/ai'' ''alice'' []
           (Some (sample_body (Some (JNumber 3)) hello))))
       = Some ([''Hi'', '' there''], [DbInsert 3 ''assistant'' ''Hi there''], Closed)
   \<and> stream_of (POST_ai (sample_server env_llm) StringToNumber_digits
        (Upstream [TextDelta ''Hi'', TextDelta '' there''])
        (sample_request ''/api/chat/ai'' ''alice'' []
           (Some (sample_body (Some (JNumber 3)) hello))))
       = Some ([''Hi'', '' there''], [], StillOpen)
   \<and> stream_of (POST_ai (sample_server env_llm) StringToNumber_digits
        (Upstream [TextDelta ''Hi'', TextDelta '' there'', StreamError])
        (sample_request ''/api/chat/ai'' ''alice'' []
           (Some (sample_body (Some (JNumber 3)) hello))))
       = Some ([''Hi'', '' there''], [], Errored)"
proof -
  let ?req = "sample_request ''/api/chat/ai'' ''alice'' []
                (Some (sample_body (Some (JNumber 3)) hello))"
  have ne: "''alice'' \<noteq> []" by simp
  have tid: "request_threadId StringToNumber_digits ?req = Inr (Num 3)"
    by (simp add: sample_body_reads Number_def)
  have nz: "(3::int) \<noteq> 0" by simp
  have own: "owns (sample_server env_llm) ''alice'' (Num 3)"
    by (simp add: owns_def sample_server_def sample_threads_def)
  have ms: "request_messages ?req = Inr (JArray (map json_of_msg hello))"
    by (simp add: sample_body_reads)
  have mne: "map json_of_msg hello \<noteq> []"
    by (simp add: hello_def)
  have nonull: "JNull \<notin> set (map json_of_msg hello)"
    by (simp add: hello_def json_of_msg_def)
  have key: "getOpenRouter (rt (sample_server env_llm)) = Some ''sk-or-1''"
    by (simp add: sample_server_def getOpenRouter_llm)
  from real_mode_persists_once_at_end[where request = ?req and chunks = "[''Hi'', '' there'']"
         and StringToNumber = StringToNumber_digits,
         OF sample_lookup_llm ne tid nz own ms mne nonull key]
  show ?thesis using own key by simp
qed

section \<open>The guest endpoint\<close>

lemma relay_silent: "relay (\<lambda>txt. []) acc evs = (chunks, fx, e) \<Longrightarrow> fx = []"
  by (induction "\<lambda>txt::string. ([]::effect list)" acc evs arbitrary: chunks fx e
      rule: relay.induct)
     (auto split: prod.splits)

text \<open>The guest handler never looks a session up and never touches the database.\<close>

lemma POST_guest_effects:
  "effects (POST_guest r llm request) = []
   \<or> (\<exists>mdl prompt. effects (POST_guest r llm request) = [StreamText mdl prompt])"
  by (auto simp: POST_guest_def split: sum.splits option.splits completion.splits)

lemma POST_guest_stream:
  "stream_of (POST_guest r llm request) = Some (chunks, fx, e) \<Longrightarrow> fx = []"
  by (auto simp: POST_guest_def stream_of_def json_error_def dest: relay_silent
      split: sum.splits option.splits completion.splits if_splits)

lemma POST_guest_status:
  assumes "request_messages request = Inr msgs"
  shows "(status_of (POST_guest r llm request) = Some 400) = length_is_zero msgs"
proof -
  from request_model_total[OF request_messages_not_null[OF assms]]
  obtain mdl where md: "request_model r request = Inr mdl" by blast
  show ?thesis
    by (simp add: POST_guest_def assms md status_of_def json_error_def
        split: sum.splits option.splits completion.splits)
qed

text \<open>The bodies in which \<open>messages\<close> is absent, \<open>null\<close> or an array.\<close>

lemma request_messages_array:
  "(request_messages request = Inr (JArray ms)) =
     (req_json request = None \<and> ms = []
      \<or> (\<exists>b. req_json request = Some b \<and> b \<noteq> JNull
            \<and> (get_property b ''messages'' = Inr None \<and> ms = []
               \<or> get_property b ''messages'' = Inr (Some JNull) \<and> ms = []
               \<or> get_property b ''messages'' = Inr (Some (JArray ms)))))"
  by (cases "req_json request")
     (auto simp: request_messages_def parsed_body_def own_property_def or_empty_array_def
            get_property_throws
       split: sum.splits option.splits json.splits)

text \<open>
  Off the body \<open>null\<close> the handler does what is asked of it: it never looks a session up
  and never touches the database, neither in the handler nor while its response is read;
  a body that does not parse is answered 400; and when \<open>messages\<close> is absent, \<open>null\<close>
  or an array, the answer is 400 exactly when there are no messages.
\<close>

lemma POST_guest_readable_body:
  "GetSession \<notin> set (effects (POST_guest r llm request))
   \<and> filter is_db_access (effects (POST_guest r llm request)) = []
   \<and> (case stream_of (POST_guest r llm request) of
         None \<Rightarrow> True
       | Some (chunks, fx, e) \<Rightarrow> fx = [])
   \<and> (req_json request = None \<longrightarrow> status_of (POST_guest r llm request) = Some 400)
   \<and> (\<forall>ms. request_messages request = Inr (JArray ms)
         \<longrightarrow> (status_of (POST_guest r llm request) = Some 400) = (ms = []))"
proof -
  have fx: "GetSession \<notin> set (effects (POST_guest r llm request))
            \<and> filter is_db_access (effects (POST_guest r llm request)) = []"
    using POST_guest_effects[of r llm request] by (auto simp: is_db_access_def)
  have rd: "(case stream_of (POST_guest r llm request) of
               None \<Rightarrow> True | Some (chunks, fx, e) \<Rightarrow> fx = [])"
    by (auto dest: POST_guest_stream split: option.splits)
  have arr: "(status_of (POST_guest r llm request) = Some 400) = (ms = [])"
    if "request_messages request = Inr (JArray ms)" for ms
    using POST_guest_status[OF that] by simp
  have unparsed: "status_of (POST_guest r llm request) = Some 400" if "req_json request = None"
  proof -
    from that have "request_messages request = Inr (JArray [])"
      by (simp add: request_messages_array)
    from arr[OF this] show ?thesis by simp
  qed
  show ?thesis using fx rd arr unparsed by blast
qed

text \<open>
  Claim C7 fails on the code at the body \<open>null\<close>. It is valid JSON and carries no
  messages, so the claim asks for 400, as the handler answers a body that does not parse
  (replaced by \<open>{}\<close>) and the bodies \<open>{}\<close> and \<open>{"messages": null}\<close> (\<open>?? []\<close>). But
  \<open>request.json()\<close> resolves to \<open>null\<close>, nothing replaces it, and reading
  \<open>body.messages\<close> throws: the handler returns no response at all.
\<close>

theorem guest_null_body_throws:
  "status_of (POST_guest env_none (Upstream [])
      (sample_request ''/api/chat/guest'' ''nobody'' [] None)) = Some 400
   \<and> status_of (POST_guest env_none (Upstream [])
        (sample_request ''/api/chat/guest'' ''nobody'' [] (Some (JObject [])))) = Some 400
   \<and> status_of (POST_guest env_none (Upstream [])
        (sample_request ''/api/chat/guest'' ''nobody'' []
           (Some (JObject [(''messages'', JNull)])))) = Some 400
   \<and> POST_guest env_none (Upstream []) (sample_request ''/api/chat/guest'' ''nobody'' [] (Some JNull))
     = \<lparr> outcome = Inl TypeError, effects = [] \<rparr>
   \<and> status_of (POST_guest env_none (Upstream [])
        (sample_request ''/api/chat/guest'' ''nobody'' [] (Some JNull))) = None"
  by code_simp

section \<open>Missing configuration\<close>

lemma getEnv_missing:
  assumes "k = ''DATABASE_URL'' \<or> k = ''BETTER_AUTH_SECRET''"
      and "cf_var r k = None" and "process_env r k = None"
  shows "getEnv r = Inl (Error ''DATABASE_URL is not configured'')
       \<or> getEnv r = Inl (Error ''BETTER_AUTH_SECRET is not configured'')"
  using assms by (auto simp: getEnv_def nullish_def Let_def split: option.splits)

text \<open>
  Claim C8, as the code has it. When \<open>DATABASE_URL\<close> or \<open>BETTER_AUTH_SECRET\<close> is absent from
  both the Cloudflare context and the process environment, every call of \<open>getEnv\<close>, and
  so of \<open>getAuth\<close>, throws the configuration error; the sync proxy and the completion
  endpoint, which call \<open>getAuth\<close> first, throw it on each request before any effect. The
  check runs per call, not at startup.
\<close>

theorem missing_secret_throws_on_each_call:
  assumes "k = ''DATABASE_URL'' \<or> k = ''BETTER_AUTH_SECRET''"
      and "cf_var (rt srv) k = None" and "process_env (rt srv) k = None"
  shows "\<exists>msg. getEnv (rt srv) = Inl (Error msg)
           \<and> fst (getAuth (rt srv) cache) = Inl (Error msg)
           \<and> serve srv prepareElectricUrl proxyElectricRequest sync_request =
               \<lparr> outcome = Inl (Error msg), effects = [] \<rparr>
           \<and> POST_ai srv StringToNumber llm ai_request =
               \<lparr> outcome = Inl (Error msg), effects = [] \<rparr>"
proof -
  from getEnv_missing[OF assms] obtain reason where e: "getEnv (rt srv) = Inl (Error reason)"
    by blast
  then have a: "fst (getAuth (rt srv) c) = Inl (Error reason)" for c
    by (simp add: getAuth_def)
  then have l: "session_lookup srv rq = Inl (Error reason)" for rq :: "'x request"
    by (simp add: session_lookup_def)
  show ?thesis
    using e a by (intro exI[of _ reason]) (simp add: serve_def POST_ai_def l)
qed

theorem missing_secret_throws_on_each_call_witness:
  "cf_var (rt (sample_server env_none)) ''DATABASE_URL'' = None
   \<and> process_env (rt (sample_server env_none)) ''DATABASE_URL'' = None
   \<and> getEnv (rt (sample_server env_none)) = Inl (Error ''DATABASE_URL is not configured'')
   \<and> outcome (serve (sample_server env_none) id electric_ok
        (sample_request ''/api/chat-messages'' ''alice'' [] (None :: unit option)))
       = Inl (Error ''DATABASE_URL is not configured'')
   \<and> POST_ai (sample_server env_none) StringToNumber_digits (Upstream [])
        (sample_request ''/api/chat/ai'' ''alice'' []
           (Some (sample_body (Some (JNumber 3)) hello)))
       = \<lparr> outcome = Inl (Error ''DATABASE_URL is not configured''), effects = [] \<rparr>"
proof -
  have k: "''DATABASE_URL'' = ''DATABASE_URL'' \<or> ''DATABASE_URL'' = ''BETTER_AUTH_SECRET''" by simp
  have c: "cf_var (rt (sample_server env_none)) ''DATABASE_URL'' = None"
    by (simp add: sample_server_def env_none_def cf_var_def)
  have p: "process_env (rt (sample_server env_none)) ''DATABASE_URL'' = None"
    by (simp add: sample_server_def env_none_def)
  have g: "getEnv (rt (sample_server env_none)) = Inl (Error ''DATABASE_URL is not configured'')"
    by (simp add: sample_server_def env_none_def getEnv_def cf_var_def nullish_def)
  from missing_secret_throws_on_each_call[OF k c p, of None id electric_ok
         "sample_request ''/api/chat-messages'' ''alice'' [] (None :: unit option)"
         StringToNumber_digits "Upstream []"
         "sample_request ''/api/chat/ai'' ''alice'' []
           (Some (sample_body (Some (JNumber 3)) hello))"]
  show ?thesis using c p g by auto
qed

text \<open>
  The claim as written fails: with both secrets absent the guest endpoint, which never
  calls \<open>getAuth\<close>, still serves a request.
\<close>

theorem guest_served_without_secrets:
  "cf_var env_none ''DATABASE_URL'' = None \<and> process_env env_none ''DATABASE_URL'' = None
   \<and> cf_var env_none ''BETTER_AUTH_SECRET'' = None \<and> process_env env_none ''BETTER_AUTH_SECRET'' = None
   \<and> getEnv env_none = Inl (Error ''DATABASE_URL is not configured'')
   \<and> status_of (POST_guest env_none (Upstream [])
        (sample_request ''/api/chat/guest'' ''nobody'' []
           (Some (sample_body None hello)))) = Some 200"
  by code_simp

section \<open>The guest chat view: the free-request limit\<close>

lemma handleSend_limit:
  assumes "num_ge (freeRequestsUsed s) FREE_REQUEST_LIMIT"
  shows "handleSend pf s now1 now2 res =
           (if trim pf (input s) = [] \<or> isLoading s then (s, [])
            else (s \<lparr> input := [], isLoading := False, streamingContent := [],
                      showAuthPrompt := True \<rparr>, []))"
  using assms by (simp add: handleSend_def Let_def)

lemma step_limit:
  assumes "num_ge (freeRequestsUsed s) FREE_REQUEST_LIMIT"
  shows "snd (step pf s e) = [] \<and> freeRequestsUsed (fst (step pf s e)) = freeRequestsUsed s"
  using assms by (cases e) (simp_all add: handleSend_limit)

lemma run_limit:
  assumes "num_ge (freeRequestsUsed s) FREE_REQUEST_LIMIT"
  shows "snd (run pf s events) = []
       \<and> freeRequestsUsed (fst (run pf s events)) = freeRequestsUsed s"
  using assms
proof (induction events arbitrary: s)
  case Nil
  show ?case by simp
next
  case (Cons e events)
  obtain s1 fx1 where st: "step pf s e = (s1, fx1)" by (cases "step pf s e")
  from step_limit[OF Cons.prems, of pf e] st
  have fx1: "fx1 = []" and keep: "freeRequestsUsed s1 = freeRequestsUsed s" by simp_all
  with Cons.prems have "num_ge (freeRequestsUsed s1) FREE_REQUEST_LIMIT" by simp
  from Cons.IH[OF this] keep fx1 st show ?case
    by (simp split: prod.splits)
qed

lemma stored_one: "getFreeRequestCount sample_platform storage_used = Num 1"
  by (simp add: storage_used_def getFreeRequestCount_def sample_platform_def parseInt_ascii_def
      is_space_def is_digit_def digits_value_def Let_def)

text \<open>
  Claim C9, as the code has it, for any \<open>trim\<close>, \<open>parseInt\<close> and number-to-string
  conversion of the platform. Once the view's count of used free requests (the state
  \<open>freeRequestsUsed\<close>) has reached the limit, no later event (typing, submits whatever
  their call would return, dismissing the prompt, another tab writing local storage)
  issues a call of the guest endpoint, and the count stays at the limit. A submit made
  after those events issues no call either: when the trimmed input is empty or a request
  is in flight it changes nothing, otherwise it clears the input and shows the auth
  prompt.
\<close>

theorem limit_reached_never_fetches:
  assumes "num_ge (freeRequestsUsed s) FREE_REQUEST_LIMIT"
  shows "snd (run pf s events) = []
       \<and> freeRequestsUsed (fst (run pf s events)) = freeRequestsUsed s
       \<and> num_ge (freeRequestsUsed (fst (run pf s events))) FREE_REQUEST_LIMIT
       \<and> handleSend pf (fst (run pf s events)) now1 now2 res =
           (if trim pf (input (fst (run pf s events))) = [] \<or> isLoading (fst (run pf s events))
            then (fst (run pf s events), [])
            else ((fst (run pf s events))
                    \<lparr> input := [], isLoading := False, streamingContent := [],
                      showAuthPrompt := True \<rparr>, []))
       \<and> snd (handleSend pf (fst (run pf s events)) now1 now2 res) = []"
proof -
  from run_limit[OF assms, of pf events]
  have fx: "snd (run pf s events) = []"
    and keep: "freeRequestsUsed (fst (run pf s events)) = freeRequestsUsed s"
    by simp_all
  from keep assms
  have lim: "num_ge (freeRequestsUsed (fst (run pf s events))) FREE_REQUEST_LIMIT" by simp
  show ?thesis
    using fx keep lim by (simp add: handleSend_limit[OF lim])
qed

theorem limit_reached_never_fetches_witness:
  "num_ge (freeRequestsUsed (mount sample_platform (GuestChat_initial ''m'' storage_used)))
      FREE_REQUEST_LIMIT
   \<and> snd (run sample_platform (mount sample_platform (GuestChat_initial ''m'' storage_used))
        [SetInput ''hi'', Submit 1 2 (Stream [''x''] True), DismissAuthPrompt, SetInput ''again'']) = []
   \<and> snd (handleSend sample_platform
        (fst (run sample_platform (mount sample_platform (GuestChat_initial ''m'' storage_used))
        [SetInput ''hi'', Submit 1 2 (Stream [''x''] True), DismissAuthPrompt, SetInput ''again'']))
        3 4 (Stream [''y''] True)) = []
   \<and> showAuthPrompt (fst (handleSend sample_platform
        (fst (run sample_platform (mount sample_platform (GuestChat_initial ''m'' storage_used))
        [SetInput ''hi'', Submit 1 2 (Stream [''x''] True), DismissAuthPrompt, SetInput ''again'']))
        3 4 (Stream [''y''] True)))"
proof -
  let ?s = "mount sample_platform (GuestChat_initial ''m'' storage_used)"
  let ?evs = "[SetInput ''hi'', Submit 1 2 (Stream [''x''] True), DismissAuthPrompt, SetInput ''again'']"
  have h: "num_ge (freeRequestsUsed ?s) FREE_REQUEST_LIMIT"
    by (simp add: mount_def GuestChat_initial_def stored_one num_ge_def FREE_REQUEST_LIMIT_def)
  have i: "trim sample_platform (input (fst (run sample_platform ?s ?evs))) \<noteq> []
           \<and> \<not> isLoading (fst (run sample_platform ?s ?evs))"
    by code_simp
  from limit_reached_never_fetches[OF h, of sample_platform ?evs 3 4 "Stream [''y''] True"]
  show ?thesis using h i by simp
qed

text \<open>
  The claim as written fails twice. With the stored counter at the limit, a submit with
  an empty input box does not show the auth prompt. And a view that mounted before
  another tab used the free request still holds the count 0: its next submit calls the
  guest endpoint although the stored counter has reached the limit.
\<close>

theorem stored_limit_blank_submit_and_stale_view:
  "num_ge (getFreeRequestCount sample_platform
            (localStorage (mount sample_platform (GuestChat_initial ''m'' storage_used))))
      FREE_REQUEST_LIMIT
   \<and> \<not> showAuthPrompt (fst (step sample_platform
          (mount sample_platform (GuestChat_initial ''m'' storage_used))
          (Submit 1 2 NoBody)))
   \<and> num_ge (getFreeRequestCount sample_platform
        (localStorage (fst (run sample_platform
          (mount sample_platform (GuestChat_initial ''m'' (map_of [])))
          [OtherTabStores FREE_REQUEST_KEY ''1'', SetInput ''hi'']))))
      FREE_REQUEST_LIMIT
   \<and> snd (step sample_platform
        (fst (run sample_platform (mount sample_platform (GuestChat_initial ''m'' (map_of [])))
          [OtherTabStores FREE_REQUEST_KEY ''1'', SetInput ''hi'']))
        (Submit 1 2 NoBody))
       = [Fetch ''/api/chat/guest'' [\<lparr> role = User, content = ''hi'' \<rparr>] ''m'']"
  by code_simp

end
